theory Spec2Isabelle
  imports Complex_Main
begin

section \<open>Values of the Python runtime\<close>

text \<open>
  The service in \<^verbatim>\<open>main.py\<close> handles three kinds of dynamic values: the JSON document
  that \<^verbatim>\<open>response.json()\<close> decodes from the inference endpoint, the JSON object that
  FastAPI hands to \<^verbatim>\<open>chatbot_query\<close> as \<^verbatim>\<open>payload\<close>, and Python exceptions.

  Text is a \<open>string\<close>; a character stands for the code point of the same number, so the
  model speaks about Python strings whose code points are below 256. A Python \<^verbatim>\<open>float\<close>
  is identified by its \<^verbatim>\<open>repr\<close>, which determines the double; a \<^verbatim>\<open>dict\<close> is the list of
  its items in insertion order.
\<close>

datatype json =
    JNull
  | JBool bool
  | JInt int
  | JFloat string
  | JStr string
  | JArr "json list"
  | JObj "(string \<times> json) list"

text \<open>
  Exceptions. \<^verbatim>\<open>HTTPException(status_code, detail)\<close> is FastAPI's; the handlers build the
  detail either from a literal or as \<^verbatim>\<open>str(e)\<close> of the exception they caught, which is
  kept as it is (\<open>StrOf e\<close>). \<open>MySQLError\<close> is \<^verbatim>\<open>mysql.connector.Error\<close> with its message.
\<close>

datatype pyexc =
    RuntimeError string
  | IndexError
  | TypeError
  | AttributeError
  | KeyError
  | MySQLError string
  | HTTPException nat detail
and detail =
    Text string
  | StrOf pyexc

subsection \<open>\<^verbatim>\<open>str\<close> and \<^verbatim>\<open>repr\<close>\<close>

definition digit_char :: "nat \<Rightarrow> char" where
  "digit_char d = char_of (48 + d)"

function str_nat :: "nat \<Rightarrow> string" where
  "str_nat n = (if n < 10 then [digit_char n] else str_nat (n div 10) @ [digit_char (n mod 10)])"
  by pat_completeness auto
termination
  by (relation "measure (\<lambda>n. n)") auto

declare str_nat.simps [simp del]

definition str_int :: "int \<Rightarrow> string" where
  "str_int i = (if i < 0 then CHR ''-'' # str_nat (nat (- i)) else str_nat (nat i))"

definition hex_char :: "nat \<Rightarrow> char" where
  "hex_char d = (if d < 10 then char_of (48 + d) else char_of (87 + d))"

definition printable :: "char \<Rightarrow> bool" where
  "printable c = (let n = (of_char c :: nat) in
     (32 \<le> n \<and> n < 127) \<or> (161 \<le> n \<and> n \<noteq> 173))"

definition repr_char :: "char \<Rightarrow> char \<Rightarrow> string" where
  "repr_char q c =
     (if c = q \<or> c = CHR 0x5C then [CHR 0x5C, c]
      else if c = CHR 0x09 then [CHR 0x5C, CHR ''t'']
      else if c = CHR 0x0A then [CHR 0x5C, CHR ''n'']
      else if c = CHR 0x0D then [CHR 0x5C, CHR ''r'']
      else if printable c then [c]
      else [CHR 0x5C, CHR ''x'', hex_char ((of_char c :: nat) div 16), hex_char ((of_char c :: nat) mod 16)])"

definition repr_str :: "string \<Rightarrow> string" where
  "repr_str s =
     (let q = (if CHR 0x27 \<in> set s \<and> CHR 0x22 \<notin> set s then CHR 0x22 else CHR 0x27)
      in [q] @ concat (map (repr_char q) s) @ [q])"

fun py_repr :: "json \<Rightarrow> string"
  and repr_items :: "json list \<Rightarrow> string"
  and repr_pairs :: "(string \<times> json) list \<Rightarrow> string" where
  "py_repr JNull = ''None''"
| "py_repr (JBool b) = (if b then ''True'' else ''False'')"
| "py_repr (JInt i) = str_int i"
| "py_repr (JFloat r) = r"
| "py_repr (JStr s) = repr_str s"
| "py_repr (JArr xs) = ''['' @ repr_items xs @ '']''"
| "py_repr (JObj kvs) = ''{'' @ repr_pairs kvs @ ''}''"
| "repr_items [] = []"
| "repr_items [x] = py_repr x"
| "repr_items (x # y # ys) = py_repr x @ '', '' @ repr_items (y # ys)"
| "repr_pairs [] = []"
| "repr_pairs [(k, v)] = repr_str k @ '': '' @ py_repr v"
| "repr_pairs ((k, v) # p # ps) = repr_str k @ '': '' @ py_repr v @ '', '' @ repr_pairs (p # ps)"

text \<open>\<^verbatim>\<open>str(v)\<close>, which an f-string applies to each interpolated value.\<close>

fun py_str :: "json \<Rightarrow> string" where
  "py_str (JStr s) = s"
| "py_str v = py_repr v"

subsection \<open>Truth values, membership, subscripts\<close>

text \<open>The truth value that \<^verbatim>\<open>not v\<close> and \<^verbatim>\<open>if v\<close> test.\<close>

fun truthy :: "json \<Rightarrow> bool" where
  "truthy JNull = False"
| "truthy (JBool b) = b"
| "truthy (JInt i) = (i \<noteq> 0)"
| "truthy (JFloat r) = (r \<noteq> ''0.0'' \<and> r \<noteq> ''-0.0'')"
| "truthy (JStr s) = (s \<noteq> [])"
| "truthy (JArr xs) = (xs \<noteq> [])"
| "truthy (JObj kvs) = (kvs \<noteq> [])"

fun startswith :: "string \<Rightarrow> string \<Rightarrow> bool" where
  "startswith s p = (take (length p) s = p)"

fun substring :: "string \<Rightarrow> string \<Rightarrow> bool" where
  "substring p [] = (p = [])"
| "substring p (c # cs) = (startswith (c # cs) p \<or> substring p cs)"

text \<open>
  \<^verbatim>\<open>key in x\<close> for a string key: a key test on a dict, an element test on a list, a
  substring test on a string, and a TypeError on anything else.
\<close>

fun py_contains :: "string \<Rightarrow> json \<Rightarrow> pyexc + bool" where
  "py_contains k (JObj kvs) = Inr (k \<in> set (map fst kvs))"
| "py_contains k (JArr xs) = Inr (JStr k \<in> set xs)"
| "py_contains k (JStr s) = Inr (substring k s)"
| "py_contains k v = Inl TypeError"

text \<open>\<^verbatim>\<open>x[key]\<close> for a string key: only a dict accepts it.\<close>

fun py_getitem :: "json \<Rightarrow> string \<Rightarrow> pyexc + json" where
  "py_getitem (JObj kvs) k = (case map_of kvs k of None \<Rightarrow> Inl KeyError | Some v \<Rightarrow> Inr v)"
| "py_getitem v k = Inl TypeError"

text \<open>\<^verbatim>\<open>xs[0]\<close> on a list.\<close>

fun py_first :: "json list \<Rightarrow> pyexc + json" where
  "py_first [] = Inl IndexError"
| "py_first (x # xs) = Inr x"

subsection \<open>\<^verbatim>\<open>str.split(sep)\<close> and \<^verbatim>\<open>str.strip()\<close>\<close>

text \<open>
  \<open>split_from sep cur s\<close> scans \<open>s\<close> from the left with \<open>cur\<close> the piece collected so
  far; each occurrence of \<open>sep\<close> closes a piece and the scan goes on behind it.
  \<^verbatim>\<open>split\<close> raises ValueError on an empty separator; the only separator of the source is
  the literal \<^verbatim>\<open>"Assistant:"\<close>.
\<close>

function split_from :: "string \<Rightarrow> string \<Rightarrow> string \<Rightarrow> string list" where
  "split_from sep cur [] = [cur]"
| "split_from sep cur (c # cs) =
     (if sep \<noteq> [] \<and> startswith (c # cs) sep
      then cur # split_from sep [] (drop (length sep) (c # cs))
      else split_from sep (cur @ [c]) cs)"
  by pat_completeness auto
termination
  by (relation "measure (\<lambda>(sep, cur, s). length s)") auto

definition split :: "string \<Rightarrow> string \<Rightarrow> string list" where
  "split s sep = split_from sep [] s"

text \<open>The characters \<^verbatim>\<open>str.isspace\<close> accepts, among the code points below 256.\<close>

definition isspace :: "char \<Rightarrow> bool" where
  "isspace c = (let n = (of_char c :: nat) in
     (9 \<le> n \<and> n \<le> 13) \<or> (28 \<le> n \<and> n \<le> 32) \<or> n = 133 \<or> n = 160)"

definition lstrip :: "string \<Rightarrow> string" where
  "lstrip s = dropWhile isspace s"

definition rstrip :: "string \<Rightarrow> string" where
  "rstrip s = rev (dropWhile isspace (rev s))"

definition strip :: "string \<Rightarrow> string" where
  "strip s = rstrip (lstrip s)"

section \<open>The inference client\<close>

text \<open>
  What \<^verbatim>\<open>requests.post(...)\<close> followed by \<^verbatim>\<open>response.json()\<close> gives: an exception, of
  which the code keeps \<^verbatim>\<open>str(e)\<close>, or the decoded document.
\<close>

datatype http_outcome = HttpRaised string | HttpJson json

text \<open>The three \<^verbatim>\<open>RuntimeError\<close>s of \<^verbatim>\<open>generate_ai_response\<close>, by their raise sites.\<close>

definition TransportError :: "string \<Rightarrow> pyexc" where
  "TransportError e = RuntimeError (''Failed to contact Hugging Face API: '' @ e)"

definition ModelError :: "json \<Rightarrow> pyexc" where
  "ModelError v = RuntimeError (''Model error: '' @ py_str v)"

definition UnexpectedResponseShape :: pyexc where
  "UnexpectedResponseShape = RuntimeError ''Unexpected API response format.''"

text \<open>\<^verbatim>\<open>result[0]["generated_text"].split("Assistant:")[-1].strip()\<close>\<close>

definition generated_text :: "json \<Rightarrow> pyexc + string" where
  "generated_text x =
     (case py_getitem x ''generated_text'' of
        Inl e \<Rightarrow> Inl e
      | Inr (JStr s) \<Rightarrow> Inr (strip (last (split s ''Assistant:'')))
      | Inr _ \<Rightarrow> Inl AttributeError)"

text \<open>
  The branch on the shape of \<^verbatim>\<open>result\<close>. In
  \<^verbatim>\<open>isinstance(result, list) and "generated_text" in result[0]\<close> the subscript and the
  membership test are evaluated for every list, and raise as Python does.
\<close>

fun normalize :: "json \<Rightarrow> pyexc + string" where
  "normalize (JArr xs) =
     (case py_first xs of
        Inl e \<Rightarrow> Inl e
      | Inr x \<Rightarrow>
         (case py_contains ''generated_text'' x of
            Inl e \<Rightarrow> Inl e
          | Inr True \<Rightarrow> generated_text x
          | Inr False \<Rightarrow> Inl UnexpectedResponseShape))"
| "normalize (JObj kvs) =
     (case py_contains ''error'' (JObj kvs) of
        Inl e \<Rightarrow> Inl e
      | Inr True \<Rightarrow>
         (case py_getitem (JObj kvs) ''error'' of
            Inl e \<Rightarrow> Inl e
          | Inr v \<Rightarrow> Inl (ModelError v))
      | Inr False \<Rightarrow> Inl UnexpectedResponseShape)"
| "normalize v = Inl UnexpectedResponseShape"

text \<open>
  \<open>post\<close> is the remote endpoint: the outcome of the POST that carries the prompt (URL,
  credential and generation parameters are constants of the source).
\<close>

definition generate_ai_response :: "(string \<Rightarrow> http_outcome) \<Rightarrow> string \<Rightarrow> pyexc + string" where
  "generate_ai_response post prompt =
     (case post prompt of
        HttpRaised e \<Rightarrow> Inl (TransportError e)
      | HttpJson result \<Rightarrow> normalize result)"

section \<open>The relational store\<close>

text \<open>
  The schema is not part of the source file; the tables are those the two statements of
  \<^verbatim>\<open>submit_patient\<close> write and the query of \<^verbatim>\<open>chatbot_query\<close> reads. The identifier of
  a row is assigned by the store (\<^verbatim>\<open>cursor.lastrowid\<close>).
\<close>

record PatientInput =
  name :: string
  age :: int
  weight :: real
  height :: real
  allergies :: string
  medical_history :: string
  symptoms :: string

record patient_row =
  p_id :: nat
  p_name :: string
  p_age :: int
  p_weight :: real
  p_height :: real
  p_allergies :: string
  p_medical_history :: string
  p_symptoms :: string

record prescription_row =
  r_id :: nat
  r_patient_id :: nat
  r_ai_summary :: string
  r_treatment_options :: string
  r_medication_recommendations :: string

text \<open>The calls a handler makes on the connector, in the order of the source.\<close>

datatype db_call =
    Connect
  | Cursor
  | InsertPatient
  | CommitPatient
  | InsertPrescription
  | CommitPrescription
  | SelectJoined
  | FetchOne
  | CursorClose
  | ConnClose

text \<open>
  The world a request runs in: the committed rows of both tables, the next identifier
  each table assigns, the number of connections that are open, every connector call
  made so far, and every prompt posted to the inference endpoint so far.
\<close>

record world =
  patients :: "patient_row list"
  prescriptions :: "prescription_row list"
  patient_seq :: nat
  prescription_seq :: nat
  open_connections :: nat
  db_log :: "db_call list"
  inference_calls :: "string list"

text \<open>
  What the handler does not control: which connector call raises
  \<^verbatim>\<open>mysql.connector.Error\<close> (and with which message), how the store compares
  \<^verbatim>\<open>p.id\<close> with the bound parameter of the query, and what the inference endpoint
  answers to a prompt.
\<close>

record env =
  db_raises :: "db_call \<Rightarrow> string option"
  id_equals :: "nat \<Rightarrow> json \<Rightarrow> bool"
  post :: "string \<Rightarrow> http_outcome"

subsection \<open>Statements that may raise\<close>

type_synonym 'a action = "world \<Rightarrow> (pyexc + 'a) \<times> world"

definition ret :: "'a \<Rightarrow> 'a action" where
  "ret x w = (Inr x, w)"

definition raise :: "pyexc \<Rightarrow> 'a action" where
  "raise e w = (Inl e, w)"

text \<open>\<open>seq m f\<close>: run \<open>m\<close>; if it raised, the rest is skipped.\<close>

definition seq :: "'a action \<Rightarrow> ('a \<Rightarrow> 'b action) \<Rightarrow> 'b action" where
  "seq m f w = (case m w of (Inl e, w') \<Rightarrow> (Inl e, w') | (Inr x, w') \<Rightarrow> f x w')"

text \<open>
  \<^verbatim>\<open>try: ... except Exception as e: raise HTTPException(status_code=500, detail=str(e))\<close>
\<close>

definition except_500 :: "'a action \<Rightarrow> 'a action" where
  "except_500 m w =
     (case m w of
        (Inl e, w') \<Rightarrow> (Inl (HTTPException 500 (StrOf e)), w')
      | (Inr x, w') \<Rightarrow> (Inr x, w'))"

text \<open>A connector call that has no effect the handlers observe besides raising.\<close>

definition db :: "env \<Rightarrow> db_call \<Rightarrow> unit action" where
  "db E c w =
     (let w' = w\<lparr>db_log := db_log w @ [c]\<rparr> in
      case db_raises E c of
        Some msg \<Rightarrow> (Inl (MySQLError msg), w')
      | None \<Rightarrow> (Inr (), w'))"

definition get_connection :: "env \<Rightarrow> unit action" where
  "get_connection E w =
     (let w' = w\<lparr>db_log := db_log w @ [Connect]\<rparr> in
      case db_raises E Connect of
        Some msg \<Rightarrow> (Inl (HTTPException 500 (Text (''Database connection failed: '' @ msg))), w')
      | None \<Rightarrow> (Inr (), w'\<lparr>open_connections := Suc (open_connections w')\<rparr>))"

definition conn_close :: "env \<Rightarrow> unit action" where
  "conn_close E w =
     (let w' = w\<lparr>db_log := db_log w @ [ConnClose]\<rparr> in
      case db_raises E ConnClose of
        Some msg \<Rightarrow> (Inl (MySQLError msg), w')
      | None \<Rightarrow> (Inr (), w'\<lparr>open_connections := open_connections w' - 1\<rparr>))"

text \<open>
  \<^verbatim>\<open>INSERT INTO patients\<close>: the store assigns the identifier; the row is part of the
  table once \<^verbatim>\<open>conn.commit()\<close> has returned.
\<close>

definition insert_patient :: "env \<Rightarrow> PatientInput \<Rightarrow> patient_row action" where
  "insert_patient E d w =
     (let w' = w\<lparr>db_log := db_log w @ [InsertPatient]\<rparr> in
      case db_raises E InsertPatient of
        Some msg \<Rightarrow> (Inl (MySQLError msg), w')
      | None \<Rightarrow>
         (Inr \<lparr>p_id = patient_seq w', p_name = name d, p_age = age d, p_weight = weight d,
               p_height = height d, p_allergies = allergies d,
               p_medical_history = medical_history d, p_symptoms = symptoms d\<rparr>,
          w'\<lparr>patient_seq := Suc (patient_seq w')\<rparr>))"

definition commit_patient :: "env \<Rightarrow> patient_row \<Rightarrow> unit action" where
  "commit_patient E row w =
     (let w' = w\<lparr>db_log := db_log w @ [CommitPatient]\<rparr> in
      case db_raises E CommitPatient of
        Some msg \<Rightarrow> (Inl (MySQLError msg), w')
      | None \<Rightarrow> (Inr (), w'\<lparr>patients := patients w' @ [row]\<rparr>))"

definition insert_prescription ::
  "env \<Rightarrow> nat \<Rightarrow> string \<Rightarrow> string \<Rightarrow> string \<Rightarrow> prescription_row action" where
  "insert_prescription E pid summary treatment medication w =
     (let w' = w\<lparr>db_log := db_log w @ [InsertPrescription]\<rparr> in
      case db_raises E InsertPrescription of
        Some msg \<Rightarrow> (Inl (MySQLError msg), w')
      | None \<Rightarrow>
         (Inr \<lparr>r_id = prescription_seq w', r_patient_id = pid, r_ai_summary = summary,
               r_treatment_options = treatment, r_medication_recommendations = medication\<rparr>,
          w'\<lparr>prescription_seq := Suc (prescription_seq w')\<rparr>))"

definition commit_prescription :: "env \<Rightarrow> prescription_row \<Rightarrow> unit action" where
  "commit_prescription E row w =
     (let w' = w\<lparr>db_log := db_log w @ [CommitPrescription]\<rparr> in
      case db_raises E CommitPrescription of
        Some msg \<Rightarrow> (Inl (MySQLError msg), w')
      | None \<Rightarrow> (Inr (), w'\<lparr>prescriptions := prescriptions w' @ [row]\<rparr>))"

text \<open>
  \<^verbatim>\<open>FROM patients p JOIN prescriptions r ON p.id = r.patient_id WHERE p.id = %s\<close>
\<close>

definition joined :: "env \<Rightarrow> world \<Rightarrow> json \<Rightarrow> (patient_row \<times> prescription_row) list" where
  "joined E w pid =
     concat (map (\<lambda>p. map (\<lambda>r. (p, r)) (filter (\<lambda>r. r_patient_id r = p_id p) (prescriptions w)))
                 (filter (\<lambda>p. id_equals E (p_id p) pid) (patients w)))"

definition fetchone :: "env \<Rightarrow> json \<Rightarrow> (patient_row \<times> prescription_row) option action" where
  "fetchone E pid w =
     (let w' = w\<lparr>db_log := db_log w @ [FetchOne]\<rparr> in
      case db_raises E FetchOne of
        Some msg \<Rightarrow> (Inl (MySQLError msg), w')
      | None \<Rightarrow> (Inr (case joined E w' pid of [] \<Rightarrow> None | x # xs \<Rightarrow> Some x), w'))"

text \<open>A call of \<^verbatim>\<open>generate_ai_response\<close> from a handler: the prompt goes out.\<close>

definition call_generate :: "env \<Rightarrow> string \<Rightarrow> string action" where
  "call_generate E prompt w =
     (generate_ai_response (post E) prompt, w\<lparr>inference_calls := inference_calls w @ [prompt]\<rparr>)"

section \<open>The handlers\<close>

subsection \<open>\<^verbatim>\<open>POST /submit\<close>\<close>

definition intake_prompt :: "PatientInput \<Rightarrow> string" where
  "intake_prompt d =
     ''\<newline>Patient is a '' @ str_int (age d) @ ''-year-old with symptoms: '' @ symptoms d @ ''.\<newline>''
     @ ''Medical history: '' @ medical_history d @ ''.\<newline>''
     @ ''Allergies: '' @ allergies d @ ''.\<newline>''
     @ ''\<newline>''
     @ ''Generate:\<newline>''
     @ ''1. A summary of the patient's condition\<newline>''
     @ ''2. Possible treatment options\<newline>''
     @ ''3. Recommended medications\<newline>''"

definition submit_patient :: "env \<Rightarrow> PatientInput \<Rightarrow> (string \<times> nat) action" where
  "submit_patient E d =
     except_500
      (seq (get_connection E) (\<lambda>conn.
       seq (db E Cursor) (\<lambda>cursor.
       seq (insert_patient E d) (\<lambda>prow.
       seq (commit_patient E prow) (\<lambda>_.
       let patient_id = p_id prow;
           prompt = intake_prompt d
       in
       seq (call_generate E prompt) (\<lambda>ai_output.
       seq (insert_prescription E patient_id ai_output ai_output ai_output) (\<lambda>rrow.
       seq (commit_prescription E rrow) (\<lambda>_.
       seq (db E CursorClose) (\<lambda>_.
       seq (conn_close E) (\<lambda>_.
       ret (''Patient and AI-powered prescription saved.'', patient_id)))))))))))"

subsection \<open>\<^verbatim>\<open>POST /chatbot\<close>\<close>

text \<open>\<^verbatim>\<open>payload.get(key)\<close>: \<^verbatim>\<open>None\<close> when the key is absent.\<close>

definition py_get :: "(string \<times> json) list \<Rightarrow> string \<Rightarrow> json" where
  "py_get payload k = (case map_of payload k of None \<Rightarrow> JNull | Some v \<Rightarrow> v)"

definition consult_prompt :: "patient_row \<times> prescription_row \<Rightarrow> json \<Rightarrow> string" where
  "consult_prompt row user_message =
     ''\<newline>You are an AI medical assistant. A doctor is reviewing a case with the following patient data:\<newline>''
     @ ''\<newline>''
     @ ''Patient Name: '' @ p_name (fst row) @ ''\<newline>''
     @ ''Age: '' @ str_int (p_age (fst row)) @ ''\<newline>''
     @ ''Symptoms: '' @ p_symptoms (fst row) @ ''\<newline>''
     @ ''Medical History: '' @ p_medical_history (fst row) @ ''\<newline>''
     @ ''Allergies: '' @ p_allergies (fst row) @ ''\<newline>''
     @ ''\<newline>''
     @ ''AI-Generated Summary: '' @ r_ai_summary (snd row) @ ''\<newline>''
     @ ''AI Treatment Options: '' @ r_treatment_options (snd row) @ ''\<newline>''
     @ ''AI Medication Recommendations: '' @ r_medication_recommendations (snd row) @ ''\<newline>''
     @ ''\<newline>''
     @ ''The doctor asks: '' @ py_str user_message @ ''\<newline>''
     @ ''\<newline>''
     @ ''Respond clearly and concisely as if advising a medical team.\<newline>''"

definition chatbot_query :: "env \<Rightarrow> (string \<times> json) list \<Rightarrow> string action" where
  "chatbot_query E payload =
     (let patient_id = py_get payload ''patient_id'';
          user_message = py_get payload ''message''
      in
      if \<not> truthy patient_id \<or> \<not> truthy user_message
      then raise (HTTPException 400 (Text ''Both 'patient_id' and 'message' are required.''))
      else
       except_500
        (seq (get_connection E) (\<lambda>conn.
         seq (db E Cursor) (\<lambda>cursor.
         seq (db E SelectJoined) (\<lambda>_.
         seq (fetchone E patient_id) (\<lambda>row.
         seq (db E CursorClose) (\<lambda>_.
         seq (conn_close E) (\<lambda>_.
         case row of
           None \<Rightarrow> raise (HTTPException 404 (Text ''Patient not found.''))
         | Some r \<Rightarrow>
            seq (call_generate E (consult_prompt r user_message)) (\<lambda>reply.
            ret (strip reply))))))))))"

section \<open>Sample requests, stores and endpoints\<close>

text \<open>An endpoint that answers every prompt with the document \<open>v\<close>.\<close>

definition remote_json :: "json \<Rightarrow> string \<Rightarrow> http_outcome" where
  "remote_json v prompt = HttpJson v"

text \<open>A store that compares \<^verbatim>\<open>p.id\<close> with an integer parameter by value.\<close>

definition int_ids :: "nat \<Rightarrow> json \<Rightarrow> bool" where
  "int_ids n v = (v = JInt (int n))"

text \<open>No connector call raises; the endpoint answers \<open>v\<close>.\<close>

definition env_of :: "json \<Rightarrow> env" where
  "env_of v = \<lparr>db_raises = (\<lambda>c. None), id_equals = int_ids, post = remote_json v\<rparr>"

definition empty_world :: world where
  "empty_world = \<lparr>patients = [], prescriptions = [], patient_seq = 1, prescription_seq = 1,
     open_connections = 0, db_log = [], inference_calls = []\<rparr>"

definition ann :: PatientInput where
  "ann = \<lparr>name = ''Ann'', age = 40, weight = 60, height = 170, allergies = ''none'',
     medical_history = ''asthma'', symptoms = ''cough''\<rparr>"

definition answer_rest :: json where
  "answer_rest = JArr [JObj [(''generated_text'', JStr ''Assistant: rest'')]]"

definition answer_loading :: json where
  "answer_loading = JObj [(''error'', JStr ''Model is loading'')]"

text \<open>The world after \<open>ann\<close> was submitted to \<open>empty_world\<close> and the endpoint answered \<open>answer_rest\<close>.\<close>

definition world_after_ann :: world where
  "world_after_ann = \<lparr>patients =
       [\<lparr>p_id = 1, p_name = ''Ann'', p_age = 40, p_weight = 60, p_height = 170,
         p_allergies = ''none'', p_medical_history = ''asthma'', p_symptoms = ''cough''\<rparr>],
     prescriptions =
       [\<lparr>r_id = 1, r_patient_id = 1, r_ai_summary = ''rest'', r_treatment_options = ''rest'',
         r_medication_recommendations = ''rest''\<rparr>],
     patient_seq = 2, prescription_seq = 2, open_connections = 0,
     db_log = [Connect, Cursor, InsertPatient, CommitPatient, InsertPrescription,
       CommitPrescription, CursorClose, ConnClose],
     inference_calls = [intake_prompt ann]\<rparr>"

text \<open>A store in which a patient and a prescription are filed under the identifier 0.\<close>

definition world_with_zero :: world where
  "world_with_zero = \<lparr>patients =
       [\<lparr>p_id = 0, p_name = ''Bob'', p_age = 7, p_weight = 25, p_height = 120,
         p_allergies = ''pollen'', p_medical_history = ''none'', p_symptoms = ''fever''\<rparr>],
     prescriptions =
       [\<lparr>r_id = 1, r_patient_id = 0, r_ai_summary = ''rest'', r_treatment_options = ''rest'',
         r_medication_recommendations = ''rest''\<rparr>],
     patient_seq = 1, prescription_seq = 2, open_connections = 0,
     db_log = [], inference_calls = []\<rparr>"

text \<open>\<open>ann\<close> under another name and weight.\<close>

definition zoe :: PatientInput where
  "zoe = \<lparr>name = ''Zoe'', age = 40, weight = 72, height = 170, allergies = ''none'',
     medical_history = ''asthma'', symptoms = ''cough''\<rparr>"

text \<open>The stored record of \<open>ann\<close> in \<open>world_after_ann\<close>, and the same fields under other identifiers.\<close>

definition ann_record :: "patient_row \<times> prescription_row" where
  "ann_record =
     (\<lparr>p_id = 1, p_name = ''Ann'', p_age = 40, p_weight = 60, p_height = 170,
       p_allergies = ''none'', p_medical_history = ''asthma'', p_symptoms = ''cough''\<rparr>,
      \<lparr>r_id = 1, r_patient_id = 1, r_ai_summary = ''rest'', r_treatment_options = ''rest'',
       r_medication_recommendations = ''rest''\<rparr>)"

definition ann_record_moved :: "patient_row \<times> prescription_row" where
  "ann_record_moved =
     (\<lparr>p_id = 8, p_name = ''Ann'', p_age = 40, p_weight = 61, p_height = 171,
       p_allergies = ''none'', p_medical_history = ''asthma'', p_symptoms = ''cough''\<rparr>,
      \<lparr>r_id = 5, r_patient_id = 8, r_ai_summary = ''rest'', r_treatment_options = ''rest'',
       r_medication_recommendations = ''rest''\<rparr>)"

text \<open>An environment in which the query of \<^verbatim>\<open>chatbot_query\<close> raises.\<close>

definition env_lookup_fails :: env where
  "env_lookup_fails =
     \<lparr>db_raises = (\<lambda>c. if c = SelectJoined then Some ''Lost connection to MySQL server'' else None),
      id_equals = int_ids, post = remote_json answer_rest\<rparr>"

definition ask_1 :: "(string \<times> json) list" where
  "ask_1 = [(''patient_id'', JInt 1), (''message'', JStr ''What next?'')]"

definition ask_7 :: "(string \<times> json) list" where
  "ask_7 = [(''patient_id'', JInt 7), (''message'', JStr ''What next?'')]"

text \<open>
  A store that compares \<^verbatim>\<open>p.id\<close> with a string parameter by the number the string spells,
  as MySQL does for an integer column.
\<close>

definition coercing_ids :: "nat \<Rightarrow> json \<Rightarrow> bool" where
  "coercing_ids n v = (v = JInt (int n) \<or> v = JStr (str_int (int n)))"

definition env_coercing :: env where
  "env_coercing = \<lparr>db_raises = (\<lambda>c. None), id_equals = coercing_ids, post = remote_json answer_rest\<rparr>"

definition ask_0_string :: "(string \<times> json) list" where
  "ask_0_string = [(''patient_id'', JStr ''0''), (''message'', JStr ''What next?'')]"

text \<open>The prompts a run has added to the ones posted before it.\<close>

definition new_prompts :: "world \<Rightarrow> world \<Rightarrow> string list" where
  "new_prompts w w' = drop (length (inference_calls w)) (inference_calls w')"

section \<open>Properties of \<^verbatim>\<open>split\<close> and \<^verbatim>\<open>strip\<close>\<close>

lemma split_from_nonempty: "split_from sep cur s \<noteq> []"
  by (induction sep cur s rule: split_from.induct) auto

lemma split_from_absent:
  "\<not> substring sep s \<Longrightarrow> split_from sep cur s = [cur @ s]"
  by (induction s arbitrary: cur) auto

lemma no_overlap:
  assumes "sep \<noteq> []" and "hd sep \<notin> set (tl sep)" and "p \<noteq> []"
    and "startswith (p @ sep @ s) sep"
  shows "length sep \<le> length p"
proof (rule ccontr)
  assume "\<not> length sep \<le> length p"
  then have lt: "length p < length sep" by simp
  from assms(4) have eq: "take (length sep) (p @ sep @ s) = sep" by simp
  have "sep ! length p = take (length sep) (p @ sep @ s) ! length p"
    using eq by simp
  also have "\<dots> = (p @ sep @ s) ! length p"
    using lt by (rule nth_take)
  also have "\<dots> = hd sep"
    using assms(1) by (simp add: nth_append hd_conv_nth)
  finally have "sep ! length p = hd sep" .
  moreover have "sep ! length p \<in> set (tl sep)"
  proof -
    from assms(3) obtain k where k: "length p = Suc k" by (cases p) auto
    with lt have "k < length (tl sep)" by simp
    then have "tl sep ! k \<in> set (tl sep)" by (rule nth_mem)
    moreover have "tl sep ! k = sep ! Suc k" using \<open>k < length (tl sep)\<close> by (simp add: nth_tl)
    ultimately show ?thesis using k by simp
  qed
  ultimately show False using assms(2) by simp
qed

lemma last_split_from:
  assumes "sep \<noteq> []" and "hd sep \<notin> set (tl sep)" and "\<not> substring sep s"
  shows "last (split_from sep cur (p @ sep @ s)) = s"
proof (induction "length p" arbitrary: p cur rule: less_induct)
  case less
  show ?case
  proof (cases p)
    case Nil
    from assms(1) obtain c cs where sep: "sep = c # cs" by (cases sep) auto
    have "split_from sep cur (sep @ s) = cur # split_from sep [] s"
      using sep by simp
    then show ?thesis using Nil assms(3) by (simp add: split_from_absent)
  next
    case (Cons a p')
    show ?thesis
    proof (cases "startswith (p @ sep @ s) sep")
      case True
      then have le: "length sep \<le> length p"
        using no_overlap [OF assms(1) assms(2) _ True] Cons by simp
      have "split_from sep cur (p @ sep @ s) = cur # split_from sep [] (drop (length sep) (p @ sep @ s))"
        using True assms(1) Cons by simp
      also have "drop (length sep) (p @ sep @ s) = drop (length sep) p @ sep @ s"
        using le by simp
      finally have "last (split_from sep cur (p @ sep @ s)) = last (split_from sep [] (drop (length sep) p @ sep @ s))"
        by (simp add: split_from_nonempty)
      moreover have "length (drop (length sep) p) < length p"
        using assms(1) Cons by simp
      ultimately show ?thesis using less.hyps by simp
    next
      case False
      then have "split_from sep cur (p @ sep @ s) = split_from sep (cur @ [a]) (p' @ sep @ s)"
        using Cons by simp
      moreover have "length p' < length p" using Cons by simp
      ultimately show ?thesis using less.hyps by simp
    qed
  qed
qed

lemma strip_trimmed:
  "strip s = [] \<or> (\<not> isspace (hd (strip s)) \<and> \<not> isspace (last (strip s)))"
proof (cases "strip s = []")
  case True then show ?thesis by simp
next
  case False
  let ?t = "lstrip s"
  let ?d = "dropWhile isspace (rev ?t)"
  have st: "strip s = rev ?d" by (simp add: strip_def rstrip_def)
  with False have dne: "?d \<noteq> []" by simp
  then have "\<not> isspace (hd ?d)" by (rule hd_dropWhile)
  then have l: "\<not> isspace (last (strip s))" using dne st by (simp add: last_rev)
  have "rev ?t = takeWhile isspace (rev ?t) @ ?d" by simp
  then have "?t = rev ?d @ rev (takeWhile isspace (rev ?t))"
    by (metis rev_append rev_rev_ident)
  then have pre: "?t = strip s @ rev (takeWhile isspace (rev ?t))" using st by simp
  then have tne: "?t \<noteq> []" using False by auto
  have "hd ?t = hd (strip s)" using pre False by (metis hd_append2)
  moreover have "\<not> isspace (hd ?t)" using tne unfolding lstrip_def by (rule hd_dropWhile)
  ultimately show ?thesis using l by simp
qed

lemma marker_first_unique: "hd ''Assistant:'' \<notin> set (tl ''Assistant:'')"
  by simp

section \<open>Properties of the inference client\<close>

text \<open>
  The shapes that reach the last branch of \<^verbatim>\<open>generate_ai_response\<close>: everything that is
  not a list and not a dict, a dict without an \<^verbatim>\<open>error\<close> key, and a list whose first
  element is a dict without a \<^verbatim>\<open>generated_text\<close> key.
\<close>

lemma normalize_other_shapes:
  "normalize JNull = Inl UnexpectedResponseShape"
  "normalize (JStr s) = Inl UnexpectedResponseShape"
  "normalize (JBool b) = Inl UnexpectedResponseShape"
  "normalize (JInt i) = Inl UnexpectedResponseShape"
  "normalize (JFloat r) = Inl UnexpectedResponseShape"
  "''error'' \<notin> fst ` set kvs \<Longrightarrow> normalize (JObj kvs) = Inl UnexpectedResponseShape"
  "''generated_text'' \<notin> fst ` set kvs \<Longrightarrow> normalize (JArr (JObj kvs # xs)) = Inl UnexpectedResponseShape"
  by simp_all

text \<open>
  Claim C2. The claim: every response that is neither a list whose first element carries a
  generated-text field nor an object with an error field, an empty list included, fails
  with \<open>UnexpectedResponseShape\<close>. The code evaluates \<^verbatim>\<open>result[0]\<close> before it looks at
  the shape of the element: on the empty list \<^verbatim>\<open>[]\<close> the subscript raises
  \<^verbatim>\<open>IndexError\<close>, which is none of the three \<^verbatim>\<open>RuntimeError\<close>s of the function.
\<close>

theorem generate_empty_list_crashes:
  "generate_ai_response (\<lambda>p. HttpJson (JArr [])) ''prompt'' = Inl IndexError
   \<and> IndexError \<noteq> UnexpectedResponseShape"
  by (simp add: generate_ai_response_def UnexpectedResponseShape_def)

text \<open>
  Claim C4, as stated: for the generated text \<^verbatim>\<open>"Role: RESPONSE"\<close> the client returns
  \<^verbatim>\<open>"RESPONSE"\<close>. The code splits at the literal \<^verbatim>\<open>"Assistant:"\<close> only, so this text comes
  back unchanged.
\<close>

theorem generate_role_counterexample:
  "generate_ai_response (\<lambda>p. HttpJson (JArr [JObj [(''generated_text'', JStr ''Role: RESPONSE'')]])) ''prompt''
     = Inr ''Role: RESPONSE''
   \<and> ''Role: RESPONSE'' \<noteq> ''RESPONSE''"
  by code_simp

text \<open>
  Claim C4, amended: when the response is a single-element list whose generated text ends
  in the marker \<^verbatim>\<open>"Assistant:"\<close> followed by a text \<open>s\<close> without that marker, the client
  returns \<open>s\<close> with the surrounding whitespace removed: what precedes the last marker is
  dropped, and the result neither starts nor ends with a whitespace character. For
  \<^verbatim>\<open>"Assistant: RESPONSE"\<close> it returns \<^verbatim>\<open>"RESPONSE"\<close>.
\<close>

theorem generate_strips_assistant_marker:
  assumes "remote prompt = HttpJson (JArr [JObj kvs])"
    and "map_of kvs ''generated_text'' = Some (JStr (before @ ''Assistant:'' @ s))"
    and "\<not> substring ''Assistant:'' s"
  shows "generate_ai_response remote prompt = Inr (strip s)
         \<and> (strip s = [] \<or> (\<not> isspace (hd (strip s)) \<and> \<not> isspace (last (strip s))))"
proof -
  have key: "''generated_text'' \<in> set (map fst kvs)"
    using assms(2) by (metis map_of_eq_None_iff option.distinct(1) set_map)
  have "last (split (before @ ''Assistant:'' @ s) ''Assistant:'') = s"
    unfolding split_def
    by (rule last_split_from [OF _ marker_first_unique assms(3)]) simp
  then have "generated_text (JObj kvs) = Inr (strip s)"
    using assms(2) by (simp add: generated_text_def)
  then have "generate_ai_response remote prompt = Inr (strip s)"
    using assms(1) key by (simp add: generate_ai_response_def)
  then show ?thesis using strip_trimmed [of s] by simp
qed

text \<open>Claim C4, amended, at the generated text \<^verbatim>\<open>"Assistant: RESPONSE"\<close>.\<close>

theorem generate_strips_assistant_marker_witness:
  "remote_json (JArr [JObj [(''generated_text'', JStr ''Assistant: RESPONSE'')]]) ''prompt''
     = HttpJson (JArr [JObj [(''generated_text'', JStr ''Assistant: RESPONSE'')]])
   \<and> map_of [(''generated_text'', JStr ''Assistant: RESPONSE'')] ''generated_text''
       = Some (JStr ([] @ ''Assistant:'' @ '' RESPONSE''))
   \<and> \<not> substring ''Assistant:'' '' RESPONSE''
   \<and> generate_ai_response
        (remote_json (JArr [JObj [(''generated_text'', JStr ''Assistant: RESPONSE'')]])) ''prompt''
       = Inr ''RESPONSE''"
proof -
  have h1: "remote_json (JArr [JObj [(''generated_text'', JStr ''Assistant: RESPONSE'')]]) ''prompt''
     = HttpJson (JArr [JObj [(''generated_text'', JStr ''Assistant: RESPONSE'')]])"
    by (simp add: remote_json_def)
  have h2: "map_of [(''generated_text'', JStr ''Assistant: RESPONSE'')] ''generated_text''
       = Some (JStr ([] @ ''Assistant:'' @ '' RESPONSE''))"
    by simp
  have h3: "\<not> substring ''Assistant:'' '' RESPONSE''"
    by simp
  have h4: "strip '' RESPONSE'' = ''RESPONSE''"
    by code_simp
  from generate_strips_assistant_marker
         [of "remote_json (JArr [JObj [(''generated_text'', JStr ''Assistant: RESPONSE'')]])"
             "''prompt''" "[(''generated_text'', JStr ''Assistant: RESPONSE'')]" "[]" "'' RESPONSE''",
          OF h1 h2 h3]
       h1 h2 h3 h4
  show ?thesis
    by simp
qed

text \<open>
  Claim C7. When the response is an object with an \<^verbatim>\<open>error\<close> field, the client fails with
  the \<^verbatim>\<open>RuntimeError\<close> whose message is \<^verbatim>\<open>"Model error: "\<close> followed by \<^verbatim>\<open>str\<close> of that
  field's value (the value itself when it is a string). This is the \<open>ModelError\<close> of the
  value, and it is neither a \<open>TransportError\<close>, whose message starts with
  \<^verbatim>\<open>"Failed to contact Hugging Face API: "\<close>, nor \<open>UnexpectedResponseShape\<close>, whose message
  is \<^verbatim>\<open>"Unexpected API response format."\<close>.
\<close>

theorem model_error_classified:
  assumes "remote prompt = HttpJson (JObj kvs)"
    and "''error'' \<in> fst ` set kvs"
  shows "\<exists>v. map_of kvs ''error'' = Some v
           \<and> generate_ai_response remote prompt = Inl (RuntimeError (''Model error: '' @ py_str v))
           \<and> (\<forall>s. v = JStr s \<longrightarrow>
                 generate_ai_response remote prompt = Inl (RuntimeError (''Model error: '' @ s)))
           \<and> generate_ai_response remote prompt = Inl (ModelError v)
           \<and> (\<forall>m. ModelError v \<noteq> TransportError m)
           \<and> ModelError v \<noteq> UnexpectedResponseShape
           \<and> (\<forall>m. generate_ai_response remote prompt
                  \<noteq> Inl (RuntimeError (''Failed to contact Hugging Face API: '' @ m)))
           \<and> generate_ai_response remote prompt
                  \<noteq> Inl (RuntimeError ''Unexpected API response format.'')"
proof -
  from assms(2) obtain v where v: "map_of kvs ''error'' = Some v"
    by (metis map_of_eq_None_iff not_Some_eq)
  have r: "generate_ai_response remote prompt = Inl (RuntimeError (''Model error: '' @ py_str v))"
    using assms v by (simp add: generate_ai_response_def ModelError_def)
  have s: "\<forall>s. v = JStr s \<longrightarrow>
             generate_ai_response remote prompt = Inl (RuntimeError (''Model error: '' @ s))"
    using r by simp
  have m: "generate_ai_response remote prompt = Inl (ModelError v)"
    using assms v by (simp add: generate_ai_response_def)
  have t: "\<forall>m. ModelError v \<noteq> TransportError m"
    by (simp add: ModelError_def TransportError_def)
  have u: "ModelError v \<noteq> UnexpectedResponseShape"
    by (simp add: ModelError_def UnexpectedResponseShape_def)
  have t': "\<forall>m. generate_ai_response remote prompt
                  \<noteq> Inl (RuntimeError (''Failed to contact Hugging Face API: '' @ m))"
    using r by simp
  have u': "generate_ai_response remote prompt
                  \<noteq> Inl (RuntimeError ''Unexpected API response format.'')"
    using r by simp
  from v r s m t u t' u' show ?thesis by blast
qed

text \<open>Claim C7 at the response \<^verbatim>\<open>{"error": "Model is loading"}\<close>.\<close>

theorem model_error_classified_witness:
  "remote_json answer_loading ''prompt'' = HttpJson (JObj [(''error'', JStr ''Model is loading'')])
   \<and> ''error'' \<in> fst ` set [(''error'', JStr ''Model is loading'')]
   \<and> map_of [(''error'', JStr ''Model is loading'')] ''error'' = Some (JStr ''Model is loading'')
   \<and> generate_ai_response (remote_json answer_loading) ''prompt''
       = Inl (RuntimeError ''Model error: Model is loading'')"
proof -
  have h1: "remote_json answer_loading ''prompt'' = HttpJson (JObj [(''error'', JStr ''Model is loading'')])"
    by (simp add: remote_json_def answer_loading_def)
  have h2: "''error'' \<in> fst ` set [(''error'', JStr ''Model is loading'')]"
    by simp
  from model_error_classified
         [of "remote_json answer_loading" "''prompt''" "[(''error'', JStr ''Model is loading'')]",
          OF h1 h2]
       h1 h2
  show ?thesis
    by auto
qed

section \<open>Properties of the handlers\<close>

lemmas handler_defs = except_500_def seq_def get_connection_def db_def insert_patient_def
  commit_patient_def call_generate_def insert_prescription_def commit_prescription_def
  conn_close_def fetchone_def ret_def raise_def Let_def

text \<open>
  Claim C1. When \<^verbatim>\<open>submit_patient\<close> returns its acknowledgment, the \<^verbatim>\<open>patients\<close> table has
  gained exactly one row, made of the payload under the identifier the store assigned, the
  \<^verbatim>\<open>prescriptions\<close> table has gained exactly one row, which carries that identifier as
  \<^verbatim>\<open>patient_id\<close>, all three text columns of that row are the string the inference client
  returned for the intake prompt, and the acknowledgment carries the same identifier.
\<close>

theorem submit_creates_linked_rows:
  assumes "submit_patient E d w = (Inr resp, w')"
  shows "\<exists>out. generate_ai_response (post E) (intake_prompt d) = Inr out
          \<and> patients w' = patients w @
               [\<lparr>p_id = patient_seq w, p_name = name d, p_age = age d, p_weight = weight d,
                 p_height = height d, p_allergies = allergies d,
                 p_medical_history = medical_history d, p_symptoms = symptoms d\<rparr>]
          \<and> prescriptions w' = prescriptions w @
               [\<lparr>r_id = prescription_seq w, r_patient_id = patient_seq w, r_ai_summary = out,
                 r_treatment_options = out, r_medication_recommendations = out\<rparr>]
          \<and> snd resp = patient_seq w"
  using assms
  by (auto simp: submit_patient_def handler_defs split: option.splits sum.splits prod.splits)

text \<open>Claim C1 for the patient \<open>ann\<close>, an empty store and an endpoint that answers.\<close>

theorem submit_creates_linked_rows_witness:
  "submit_patient (env_of answer_rest) ann empty_world
     = (Inr (''Patient and AI-powered prescription saved.'', 1), world_after_ann)
   \<and> (\<exists>out. generate_ai_response (post (env_of answer_rest)) (intake_prompt ann) = Inr out
          \<and> patients world_after_ann = patients empty_world @
               [\<lparr>p_id = patient_seq empty_world, p_name = name ann, p_age = age ann,
                 p_weight = weight ann, p_height = height ann, p_allergies = allergies ann,
                 p_medical_history = medical_history ann, p_symptoms = symptoms ann\<rparr>]
          \<and> prescriptions world_after_ann = prescriptions empty_world @
               [\<lparr>r_id = prescription_seq empty_world, r_patient_id = patient_seq empty_world,
                 r_ai_summary = out, r_treatment_options = out,
                 r_medication_recommendations = out\<rparr>]
          \<and> snd (''Patient and AI-powered prescription saved.'', 1::nat) = patient_seq empty_world)"
proof -
  have h: "submit_patient (env_of answer_rest) ann empty_world
     = (Inr (''Patient and AI-powered prescription saved.'', 1), world_after_ann)"
    by code_simp
  from submit_creates_linked_rows [OF h] h show ?thesis
    by blast
qed

text \<open>
  Claim C6. When connecting, opening the cursor and the patient insert with its commit went
  through, and then the model call fails or the prescription insert (the statement or its
  commit) raises, \<^verbatim>\<open>submit_patient\<close> ends with a 500 error, the \<^verbatim>\<open>patients\<close> table keeps the
  one new row, and the \<^verbatim>\<open>prescriptions\<close> table is as it was before the request: if no
  prescription referred to the new identifier before, none does afterwards.
\<close>

theorem submit_failure_leaves_orphan:
  assumes "db_raises E Connect = None" and "db_raises E Cursor = None"
    and "db_raises E InsertPatient = None" and "db_raises E CommitPatient = None"
    and "(\<exists>e. generate_ai_response (post E) (intake_prompt d) = Inl e)
         \<or> db_raises E InsertPrescription \<noteq> None
         \<or> db_raises E CommitPrescription \<noteq> None"
  shows "(\<exists>e. fst (submit_patient E d w) = Inl (HTTPException 500 (StrOf e)))
         \<and> patients (snd (submit_patient E d w)) = patients w @
              [\<lparr>p_id = patient_seq w, p_name = name d, p_age = age d, p_weight = weight d,
                p_height = height d, p_allergies = allergies d,
                p_medical_history = medical_history d, p_symptoms = symptoms d\<rparr>]
         \<and> prescriptions (snd (submit_patient E d w)) = prescriptions w
         \<and> ((\<forall>r \<in> set (prescriptions w). r_patient_id r \<noteq> patient_seq w)
              \<longrightarrow> (\<forall>r \<in> set (prescriptions (snd (submit_patient E d w))).
                     r_patient_id r \<noteq> patient_seq w))"
  using assms
  by (auto simp: submit_patient_def handler_defs split: option.splits sum.splits prod.splits)

text \<open>Claim C6 for the patient \<open>ann\<close>, an empty store and an endpoint that reports an error.\<close>

theorem submit_failure_leaves_orphan_witness:
  "db_raises (env_of answer_loading) Connect = None
   \<and> db_raises (env_of answer_loading) Cursor = None
   \<and> db_raises (env_of answer_loading) InsertPatient = None
   \<and> db_raises (env_of answer_loading) CommitPatient = None
   \<and> generate_ai_response (post (env_of answer_loading)) (intake_prompt ann)
       = Inl (RuntimeError ''Model error: Model is loading'')
   \<and> (\<exists>e. fst (submit_patient (env_of answer_loading) ann empty_world)
            = Inl (HTTPException 500 (StrOf e)))
   \<and> length (patients (snd (submit_patient (env_of answer_loading) ann empty_world))) = 1
   \<and> prescriptions (snd (submit_patient (env_of answer_loading) ann empty_world)) = []"
proof -
  have h1: "db_raises (env_of answer_loading) Connect = None"
    and h2: "db_raises (env_of answer_loading) Cursor = None"
    and h3: "db_raises (env_of answer_loading) InsertPatient = None"
    and h4: "db_raises (env_of answer_loading) CommitPatient = None"
    by (simp_all add: env_of_def)
  have g: "generate_ai_response (post (env_of answer_loading)) (intake_prompt ann)
       = Inl (RuntimeError ''Model error: Model is loading'')"
    by (simp add: env_of_def generate_ai_response_def remote_json_def answer_loading_def ModelError_def)
  then have h5: "(\<exists>e. generate_ai_response (post (env_of answer_loading)) (intake_prompt ann) = Inl e)
         \<or> db_raises (env_of answer_loading) InsertPrescription \<noteq> None
         \<or> db_raises (env_of answer_loading) CommitPrescription \<noteq> None"
    by blast
  from submit_failure_leaves_orphan [OF h1 h2 h3 h4 h5, of empty_world] h1 h2 h3 h4 g
  show ?thesis
    by (simp add: empty_world_def)
qed

text \<open>
  Claim C8. When the payload has no \<^verbatim>\<open>patient_id\<close> or no \<^verbatim>\<open>message\<close>, \<^verbatim>\<open>chatbot_query\<close>
  raises the 400 error and leaves the world as it was: no connector call and no inference
  call is made.
\<close>

theorem chatbot_missing_field:
  assumes "map_of payload ''patient_id'' = None \<or> map_of payload ''message'' = None"
  shows "chatbot_query E payload w
         = (Inl (HTTPException 400 (Text ''Both 'patient_id' and 'message' are required.'')), w)"
  using assms
  by (auto simp: chatbot_query_def py_get_def raise_def Let_def)

text \<open>Claim C8 for a payload with a patient identifier and no message.\<close>

theorem chatbot_missing_field_witness:
  "(map_of [(''patient_id'', JInt 1)] ''patient_id'' = None
      \<or> map_of [(''patient_id'', JInt 1)] ''message'' = None)
   \<and> chatbot_query (env_of answer_rest) [(''patient_id'', JInt 1)] world_after_ann
       = (Inl (HTTPException 400 (Text ''Both 'patient_id' and 'message' are required.'')),
          world_after_ann)"
proof -
  have h: "map_of [(''patient_id'', JInt 1)] ''patient_id'' = None
      \<or> map_of [(''patient_id'', JInt 1)] ''message'' = None"
    by simp
  from chatbot_missing_field [OF h] h show ?thesis
    by blast
qed

text \<open>
  Claim C10, as stated: a falsy \<^verbatim>\<open>patient_id\<close> is answered with the 400 error, so that no
  patient can ever be consulted under the identifier 0. The guard tests the truth value of
  the payload's field, not the identifier the store will match: the string \<^verbatim>\<open>"0"\<close> is
  true, passes the guard and is bound to the query; a store that compares it with
  \<^verbatim>\<open>p.id\<close> by number returns the record filed under 0, and the handler answers with the
  model's reply about that patient.
\<close>

theorem chatbot_consults_patient_zero:
  "truthy (py_get ask_0_string ''patient_id'')
   \<and> map (\<lambda>row. p_id (fst row)) (joined env_coercing world_with_zero (py_get ask_0_string ''patient_id'')) = [0]
   \<and> fst (chatbot_query env_coercing ask_0_string world_with_zero) = Inr ''rest''
   \<and> new_prompts world_with_zero (snd (chatbot_query env_coercing ask_0_string world_with_zero))
       = [consult_prompt (hd (joined env_coercing world_with_zero (JStr ''0''))) (JStr ''What next?'')]"
  by code_simp

text \<open>
  Claim C10, amended. When the payload carries a \<^verbatim>\<open>patient_id\<close> or a \<^verbatim>\<open>message\<close> whose value
  is false in Python's sense (the integer 0 and the empty string are), \<^verbatim>\<open>chatbot_query\<close>
  answers as it does when the payload has no fields at all: it raises the 400 error and
  leaves the world as it was, so the store is not asked, whatever it holds under that
  identifier. No patient can be consulted with the integer 0 as \<^verbatim>\<open>patient_id\<close>.
\<close>

theorem chatbot_falsy_field:
  assumes "(map_of payload ''patient_id'' = Some v \<and> \<not> truthy v)
           \<or> (map_of payload ''message'' = Some v \<and> \<not> truthy v)"
  shows "chatbot_query E payload w
         = (Inl (HTTPException 400 (Text ''Both 'patient_id' and 'message' are required.'')), w)
         \<and> chatbot_query E payload w = chatbot_query E [] w
         \<and> \<not> truthy (JInt 0) \<and> \<not> truthy (JStr [])"
  using assms
  by (auto simp: chatbot_query_def py_get_def raise_def Let_def)

text \<open>
  Claim C10, amended, for the integer 0, in a store that has a patient and a prescription under
  that identifier.
\<close>

theorem chatbot_falsy_field_witness:
  "((map_of [(''patient_id'', JInt 0), (''message'', JStr ''What next?'')] ''patient_id'' = Some (JInt 0)
       \<and> \<not> truthy (JInt 0))
      \<or> (map_of [(''patient_id'', JInt 0), (''message'', JStr ''What next?'')] ''message'' = Some (JInt 0)
       \<and> \<not> truthy (JInt 0)))
   \<and> joined (env_of answer_rest) world_with_zero (JInt 0) \<noteq> []
   \<and> chatbot_query (env_of answer_rest)
        [(''patient_id'', JInt 0), (''message'', JStr ''What next?'')] world_with_zero
       = (Inl (HTTPException 400 (Text ''Both 'patient_id' and 'message' are required.'')),
          world_with_zero)"
proof -
  have h: "(map_of [(''patient_id'', JInt 0), (''message'', JStr ''What next?'')] ''patient_id'' = Some (JInt 0)
       \<and> \<not> truthy (JInt 0))
      \<or> (map_of [(''patient_id'', JInt 0), (''message'', JStr ''What next?'')] ''message'' = Some (JInt 0)
       \<and> \<not> truthy (JInt 0))"
    by simp
  have j: "joined (env_of answer_rest) world_with_zero (JInt 0) \<noteq> []"
    by (simp add: joined_def env_of_def world_with_zero_def int_ids_def)
  from chatbot_falsy_field [OF h] h j show ?thesis
    by blast
qed

text \<open>The query reads the two tables only.\<close>

lemma joined_frame:
  "joined E (w\<lparr>db_log := l\<rparr>) pid = joined E w pid"
  "joined E (w\<lparr>open_connections := n\<rparr>) pid = joined E w pid"
  "joined E (w\<lparr>inference_calls := c\<rparr>) pid = joined E w pid"
  by (simp_all add: joined_def)

text \<open>
  Claim C9. The intake prompt is determined by the age, the symptoms, the medical history
  and the allergies of the payload, the consult prompt by the eight fields of the stored
  record it shows and by the message: equal fields give equal strings. The prompt a
  handler posts is that string, whatever the environment and the store are: a run of
  \<^verbatim>\<open>submit_patient\<close> posts nothing or the intake prompt of its payload, a run of
  \<^verbatim>\<open>chatbot_query\<close> posts nothing or the consult prompt of the record it fetched and of
  the message.
\<close>

theorem prompt_builder_pure:
  assumes "age d1 = age d2" and "symptoms d1 = symptoms d2"
    and "medical_history d1 = medical_history d2" and "allergies d1 = allergies d2"
    and "p_name (fst r1) = p_name (fst r2)" and "p_age (fst r1) = p_age (fst r2)"
    and "p_symptoms (fst r1) = p_symptoms (fst r2)"
    and "p_medical_history (fst r1) = p_medical_history (fst r2)"
    and "p_allergies (fst r1) = p_allergies (fst r2)"
    and "r_ai_summary (snd r1) = r_ai_summary (snd r2)"
    and "r_treatment_options (snd r1) = r_treatment_options (snd r2)"
    and "r_medication_recommendations (snd r1) = r_medication_recommendations (snd r2)"
  shows "intake_prompt d1 = intake_prompt d2
         \<and> consult_prompt r1 m = consult_prompt r2 m
         \<and> (new_prompts w (snd (submit_patient E d1 w)) = []
              \<or> new_prompts w (snd (submit_patient E d1 w)) = [intake_prompt d2])
         \<and> (new_prompts w (snd (chatbot_query E payload w)) = []
              \<or> (joined E w (py_get payload ''patient_id'') \<noteq> []
                  \<and> new_prompts w (snd (chatbot_query E payload w))
                      = [consult_prompt (hd (joined E w (py_get payload ''patient_id'')))
                           (py_get payload ''message'')]))"
proof -
  have a: "intake_prompt d1 = intake_prompt d2"
    using assms by (simp add: intake_prompt_def)
  have b: "consult_prompt r1 m = consult_prompt r2 m"
    using assms by (simp add: consult_prompt_def)
  have c: "new_prompts w (snd (submit_patient E d1 w)) = []
              \<or> new_prompts w (snd (submit_patient E d1 w)) = [intake_prompt d1]"
    by (auto simp: new_prompts_def submit_patient_def handler_defs
             split: option.splits sum.splits prod.splits)
  have d: "new_prompts w (snd (chatbot_query E payload w)) = []
              \<or> (joined E w (py_get payload ''patient_id'') \<noteq> []
                  \<and> new_prompts w (snd (chatbot_query E payload w))
                      = [consult_prompt (hd (joined E w (py_get payload ''patient_id'')))
                           (py_get payload ''message'')])"
    by (auto simp: new_prompts_def chatbot_query_def handler_defs joined_frame
             split: option.splits sum.splits prod.splits list.splits)
  from a b c d show ?thesis by simp
qed

text \<open>
  Claim C9 for two payloads that differ in name and weight only, two stored records that
  differ in identifiers, weight and height only, and the handlers run on \<open>world_after_ann\<close>.
\<close>

theorem prompt_builder_pure_witness:
  "age ann = age zoe \<and> symptoms ann = symptoms zoe
   \<and> medical_history ann = medical_history zoe \<and> allergies ann = allergies zoe
   \<and> p_name (fst ann_record) = p_name (fst ann_record_moved)
   \<and> p_age (fst ann_record) = p_age (fst ann_record_moved)
   \<and> p_symptoms (fst ann_record) = p_symptoms (fst ann_record_moved)
   \<and> p_medical_history (fst ann_record) = p_medical_history (fst ann_record_moved)
   \<and> p_allergies (fst ann_record) = p_allergies (fst ann_record_moved)
   \<and> r_ai_summary (snd ann_record) = r_ai_summary (snd ann_record_moved)
   \<and> r_treatment_options (snd ann_record) = r_treatment_options (snd ann_record_moved)
   \<and> r_medication_recommendations (snd ann_record) = r_medication_recommendations (snd ann_record_moved)
   \<and> ann \<noteq> zoe \<and> ann_record \<noteq> ann_record_moved
   \<and> intake_prompt ann = intake_prompt zoe
   \<and> consult_prompt ann_record (JStr ''What next?'') = consult_prompt ann_record_moved (JStr ''What next?'')
   \<and> new_prompts world_after_ann (snd (submit_patient (env_of answer_rest) ann world_after_ann))
       = [intake_prompt zoe]
   \<and> new_prompts world_after_ann (snd (chatbot_query (env_of answer_rest) ask_1 world_after_ann))
       = [consult_prompt ann_record_moved (JStr ''What next?'')]"
proof -
  have h: "age ann = age zoe" "symptoms ann = symptoms zoe"
    "medical_history ann = medical_history zoe" "allergies ann = allergies zoe"
    "p_name (fst ann_record) = p_name (fst ann_record_moved)"
    "p_age (fst ann_record) = p_age (fst ann_record_moved)"
    "p_symptoms (fst ann_record) = p_symptoms (fst ann_record_moved)"
    "p_medical_history (fst ann_record) = p_medical_history (fst ann_record_moved)"
    "p_allergies (fst ann_record) = p_allergies (fst ann_record_moved)"
    "r_ai_summary (snd ann_record) = r_ai_summary (snd ann_record_moved)"
    "r_treatment_options (snd ann_record) = r_treatment_options (snd ann_record_moved)"
    "r_medication_recommendations (snd ann_record) = r_medication_recommendations (snd ann_record_moved)"
    by (simp_all add: ann_def zoe_def ann_record_def ann_record_moved_def)
  have n: "ann \<noteq> zoe" "ann_record \<noteq> ann_record_moved"
    by (simp_all add: ann_def zoe_def ann_record_def ann_record_moved_def)
  have s: "new_prompts world_after_ann (snd (submit_patient (env_of answer_rest) ann world_after_ann))
       = [intake_prompt ann]"
    by code_simp
  have c: "new_prompts world_after_ann (snd (chatbot_query (env_of answer_rest) ask_1 world_after_ann))
       = [consult_prompt ann_record (JStr ''What next?'')]"
    by code_simp
  from prompt_builder_pure [OF h, of "JStr ''What next?''" world_after_ann "env_of answer_rest" ask_1]
       h n s c
  show ?thesis
    by simp
qed

text \<open>
  When no row matches, \<^verbatim>\<open>chatbot_query\<close> makes no inference call, and the exception that
  leaves the handler is the one built by its \<^verbatim>\<open>except\<close> clause, with status 500.
\<close>

lemma chatbot_no_match:
  assumes "truthy (py_get payload ''patient_id'')" and "truthy (py_get payload ''message'')"
    and "joined E w (py_get payload ''patient_id'') = []"
  shows "(\<exists>e. fst (chatbot_query E payload w) = Inl (HTTPException 500 (StrOf e)))
         \<and> inference_calls (snd (chatbot_query E payload w)) = inference_calls w"
  using assms
  by (auto simp: chatbot_query_def handler_defs joined_frame
           split: option.splits sum.splits prod.splits list.splits)

text \<open>
  Claim C3. The claim: a request whose identifier matches no joined record is answered
  with the 404 error and without an inference call. In the code the
  \<^verbatim>\<open>raise HTTPException(status_code=404, ...)\<close> stands inside the \<^verbatim>\<open>try\<close> block whose
  \<^verbatim>\<open>except Exception\<close> clause turns every exception into a 500 error: for the identifier 7
  in a store that holds patient 1 only, no connector call raises, no row matches, no
  inference call is made, and the handler raises a 500 error whose detail is the text of
  the 404 exception.
\<close>

theorem chatbot_not_found_is_500:
  "joined (env_of answer_rest) world_after_ann (JInt 7) = []
   \<and> chatbot_query (env_of answer_rest) ask_7 world_after_ann
       = (Inl (HTTPException 500 (StrOf (HTTPException 404 (Text ''Patient not found.'')))),
          world_after_ann\<lparr>db_log := db_log world_after_ann
             @ [Connect, Cursor, SelectJoined, FetchOne, CursorClose, ConnClose]\<rparr>)"
  by code_simp

text \<open>
  Claim C3 at the same request: both fields are true in Python's sense, so the request
  passes the 400 check; the handler ends with status 500 and has posted no prompt.
\<close>

theorem chatbot_not_found_is_500_witness:
  "truthy (py_get ask_7 ''patient_id'') \<and> truthy (py_get ask_7 ''message'')
   \<and> fst (chatbot_query (env_of answer_rest) ask_7 world_after_ann)
       = Inl (HTTPException 500 (StrOf (HTTPException 404 (Text ''Patient not found.''))))
   \<and> inference_calls (snd (chatbot_query (env_of answer_rest) ask_7 world_after_ann))
       = inference_calls world_after_ann"
  using chatbot_not_found_is_500
  by (simp add: ask_7_def py_get_def)

text \<open>On the paths that reach \<^verbatim>\<open>conn.close()\<close> the connection is released.\<close>

lemma submit_success_closes:
  "submit_patient E d w = (Inr resp, w') \<Longrightarrow> open_connections w' = open_connections w"
  by (auto simp: submit_patient_def handler_defs split: option.splits sum.splits prod.splits)

lemma chatbot_success_closes:
  "chatbot_query E payload w = (Inr reply, w') \<Longrightarrow> open_connections w' = open_connections w"
  by (auto simp: chatbot_query_def handler_defs
           split: option.splits sum.splits prod.splits list.splits if_splits)

text \<open>
  Claim C5. The claim: the connection a request opened is closed before the handler
  returns, on the error branches too. Both handlers call \<^verbatim>\<open>conn.close()\<close> only on the
  straight path; their \<^verbatim>\<open>except\<close> clause does not. When the endpoint answers an intake
  with an error object, \<^verbatim>\<open>submit_patient\<close> raises its 500 error after four connector
  calls, none of which is the close, and one more connection is open than before; the
  same holds for \<^verbatim>\<open>chatbot_query\<close> when its query raises.
\<close>

theorem error_branch_leaves_connection_open:
  "submit_patient (env_of answer_loading) ann empty_world
     = (Inl (HTTPException 500 (StrOf (RuntimeError ''Model error: Model is loading''))),
        \<lparr>patients =
           [\<lparr>p_id = 1, p_name = ''Ann'', p_age = 40, p_weight = 60, p_height = 170,
             p_allergies = ''none'', p_medical_history = ''asthma'', p_symptoms = ''cough''\<rparr>],
         prescriptions = [], patient_seq = 2, prescription_seq = 1,
         open_connections = 1,
         db_log = [Connect, Cursor, InsertPatient, CommitPatient],
         inference_calls = [intake_prompt ann]\<rparr>)
   \<and> open_connections empty_world = 0
   \<and> chatbot_query env_lookup_fails ask_1 world_after_ann
       = (Inl (HTTPException 500 (StrOf (MySQLError ''Lost connection to MySQL server''))),
          world_after_ann\<lparr>open_connections := 1,
             db_log := db_log world_after_ann @ [Connect, Cursor, SelectJoined]\<rparr>)
   \<and> open_connections world_after_ann = 0"
  by code_simp

text \<open>
  Claim C5 at the same two requests: each leaves one connection more open than it found.
\<close>

theorem error_branch_leaves_connection_open_witness:
  "truthy (py_get ask_1 ''patient_id'') \<and> truthy (py_get ask_1 ''message'')
   \<and> open_connections (snd (submit_patient (env_of answer_loading) ann empty_world))
       = Suc (open_connections empty_world)
   \<and> open_connections (snd (chatbot_query env_lookup_fails ask_1 world_after_ann))
       = Suc (open_connections world_after_ann)"
  using error_branch_leaves_connection_open
  by (simp add: ask_1_def py_get_def)

end
